theory Spec2Isabelle
  imports Complex_Main "HOL-Library.AList" "HOL-Library.Multiset" "HOL-Library.Sublist"
begin

section \<open>Coverage tracker: scanner, feature matcher and percentage computation\<close>

text \<open>
  A shallow embedding of \<^verbatim>\<open>tools/coverage_tracker.py\<close>. Python strings are
  modelled as HOL strings over ASCII: the character classes and the case conversions
  below are the ASCII parts of Python's \<^verbatim>\<open>\s\<close>, \<^verbatim>\<open>\w\<close>,
  \<^verbatim>\<open>str.lower\<close>, \<^verbatim>\<open>str.capitalize\<close> and \<^verbatim>\<open>str.title\<close>;
  any other character is neither a space nor a word character and has no case.
  Paths are written with the separator \<^verbatim>\<open>/\<close>. Reading a file is a function
  from the file to its text, with \<open>None\<close> where the read raises. Python floats are
  idealised as reals.
\<close>

subsection \<open>Strings\<close>

definition upper_letters :: string where
  "upper_letters = ''ABCDEFGHIJKLMNOPQRSTUVWXYZ''"

definition lower_letters :: string where
  "lower_letters = ''abcdefghijklmnopqrstuvwxyz''"

definition digits :: string where
  "digits = ''0123456789''"

definition is_upper :: "char \<Rightarrow> bool" where
  "is_upper c = (c \<in> set upper_letters)"

definition is_lower :: "char \<Rightarrow> bool" where
  "is_lower c = (c \<in> set lower_letters)"

text \<open>\<^verbatim>\<open>\w\<close>: letters, digits and the underscore.\<close>

definition is_word :: "char \<Rightarrow> bool" where
  "is_word c = (c \<in> set (upper_letters @ lower_letters @ digits @ ''_''))"

text \<open>\<^verbatim>\<open>\s\<close>: tab, line feed, vertical tab, form feed, carriage return, the
  four separators 0x1C to 0x1F, and the blank.\<close>

definition is_space :: "char \<Rightarrow> bool" where
  "is_space c = (c \<in> set [CHR 0x09, CHR 0x0A, CHR 0x0B, CHR 0x0C, CHR 0x0D,
                           CHR 0x1C, CHR 0x1D, CHR 0x1E, CHR 0x1F, CHR '' ''])"

definition lower_char :: "char \<Rightarrow> char" where
  "lower_char c = (case map_of (zip upper_letters lower_letters) c of Some l \<Rightarrow> l | None \<Rightarrow> c)"

definition upper_char :: "char \<Rightarrow> char" where
  "upper_char c = (case map_of (zip lower_letters upper_letters) c of Some u \<Rightarrow> u | None \<Rightarrow> c)"

text \<open>\<^verbatim>\<open>s.lower()\<close>\<close>

definition py_lower :: "string \<Rightarrow> string" where
  "py_lower s = map lower_char s"

text \<open>\<^verbatim>\<open>s.capitalize()\<close>: the first character upper-cased, the rest lower-cased.\<close>

definition py_capitalize :: "string \<Rightarrow> string" where
  "py_capitalize s = (case s of [] \<Rightarrow> [] | c # cs \<Rightarrow> upper_char c # map lower_char cs)"

text \<open>\<^verbatim>\<open>s.title()\<close>: a letter that follows a letter is lower-cased, any other
  letter is upper-cased.\<close>

fun title_from :: "bool \<Rightarrow> string \<Rightarrow> string" where
  "title_from prev_cased [] = []"
| "title_from prev_cased (c # cs) =
     (if is_upper c \<or> is_lower c
      then (if prev_cased then lower_char c else upper_char c) # title_from True cs
      else c # title_from False cs)"

definition py_title :: "string \<Rightarrow> string" where
  "py_title s = title_from False s"

text \<open>\<^verbatim>\<open>sub in s\<close>\<close>

fun py_in :: "string \<Rightarrow> string \<Rightarrow> bool" where
  "py_in sub [] = (sub = [])"
| "py_in sub (c # cs) = (prefix sub (c # cs) \<or> py_in sub cs)"

text \<open>\<^verbatim>\<open>s.replace(old, new)\<close> for a non-empty \<open>old\<close> (the source only passes
  the literals \<^verbatim>\<open>"/api/v1"\<close> and \<^verbatim>\<open>"-"\<close>): occurrences are replaced from
  left to right without overlap.\<close>

fun py_replace :: "string \<Rightarrow> string \<Rightarrow> string \<Rightarrow> string" where
  "py_replace old new [] = []"
| "py_replace old new (c # cs) =
     (if prefix old (c # cs) then new @ py_replace old new (drop (length old - 1) cs)
      else c # py_replace old new cs)"

text \<open>\<^verbatim>\<open>s.split(sep)\<close> for a one-character separator.\<close>

fun py_split :: "char \<Rightarrow> string \<Rightarrow> string list" where
  "py_split sep [] = [[]]"
| "py_split sep (c # cs) =
     (if c = sep then [] # py_split sep cs
      else (case py_split sep cs of [] \<Rightarrow> [[c]] | w # ws \<Rightarrow> (c # w) # ws))"

text \<open>\<^verbatim>\<open>s.split(sep, 1)\<close> for a one-character separator: at most one cut, at the
  first separator.\<close>

definition py_split1 :: "char \<Rightarrow> string \<Rightarrow> string list" where
  "py_split1 sep s =
     (case dropWhile (\<lambda>c. c \<noteq> sep) s of
        [] \<Rightarrow> [s]
      | _ # rest \<Rightarrow> [takeWhile (\<lambda>c. c \<noteq> sep) s, rest])"

text \<open>\<^verbatim>\<open>sep.join(xs)\<close>\<close>

fun py_join :: "string \<Rightarrow> string list \<Rightarrow> string" where
  "py_join sep [] = []"
| "py_join sep [x] = x"
| "py_join sep (x # y # ys) = x @ sep @ py_join sep (y # ys)"

text \<open>\<^verbatim>\<open>re.sub(r":(\w+)", lambda m: "{" + _param_to_rust(m.group(1)) + "}", route)\<close>:
  a colon followed by at least one word character starts a parameter, which extends
  over all the word characters that follow.\<close>

definition param_to_rust :: "string \<Rightarrow> string" where
  "param_to_rust param = param"

function sub_params :: "string \<Rightarrow> string" where
  "sub_params [] = []"
| "sub_params (c # cs) =
     (if c = CHR '':'' \<and> takeWhile is_word cs \<noteq> []
      then ''{'' @ param_to_rust (takeWhile is_word cs) @ ''}'' @ sub_params (dropWhile is_word cs)
      else c # sub_params cs)"
  by pat_completeness auto
termination
  by (relation "measure length") (auto simp: length_dropWhile_le less_Suc_eq_le)

text \<open>\<^verbatim>\<open>re.sub(r"(?<=[a-z])([A-Z])", r"_\1", name)\<close>: an underscore goes before each
  upper-case letter whose predecessor in \<open>name\<close> is a lower-case letter.\<close>

fun camel_sub :: "char option \<Rightarrow> string \<Rightarrow> string" where
  "camel_sub prev [] = []"
| "camel_sub prev (c # cs) =
     (if (case prev of None \<Rightarrow> False | Some p \<Rightarrow> is_lower p) \<and> is_upper c
      then CHR ''_'' # c # camel_sub (Some c) cs
      else c # camel_sub (Some c) cs)"

definition snake_of :: "string \<Rightarrow> string" where
  "snake_of name = py_lower (camel_sub None name)"

text \<open>A string between double quotes, \<^verbatim>\<open>f'"{s}"'\<close>.\<close>

definition quoted :: "string \<Rightarrow> string" where
  "quoted s = [CHR 0x22] @ s @ [CHR 0x22]"

subsection \<open>Data model\<close>

record Feature =
  category :: string
  subcategory :: string
  name :: string
  status :: string
  rust_file :: string
  rust_symbol :: string
  "notes" :: string

text \<open>The dataclass constructor \<^verbatim>\<open>Feature(category=..., subcategory=..., name=...)\<close>
  with the defaults of the other fields.\<close>

definition new_Feature :: "string \<Rightarrow> string \<Rightarrow> string \<Rightarrow> Feature" where
  "new_Feature c s n =
     \<lparr>category = c, subcategory = s, name = n, status = ''missing'',
      rust_file = [], rust_symbol = [], notes = []\<rparr>"

record CrateInfo =
  crate_name :: string
  files :: "string list"
  structs :: "string list"
  "functions" :: "string list"
  enums :: "string list"
  traits :: "string list"
  impls :: "string list"
  test_count :: int
  line_count :: int

text \<open>\<^verbatim>\<open>CrateInfo(name=crate_name)\<close>; the field \<^verbatim>\<open>name\<close> is called
  \<open>crate_name\<close> here.\<close>

definition new_CrateInfo :: "string \<Rightarrow> CrateInfo" where
  "new_CrateInfo n =
     \<lparr>crate_name = n, files = [], structs = [], functions = [], enums = [], traits = [],
      impls = [], test_count = 0, line_count = 0\<rparr>"

text \<open>Dictionaries keep their insertion order: association lists, read with
  \<open>map_of\<close> and written with \<open>AList.update\<close>.\<close>

type_synonym crates = "(string \<times> CrateInfo) list"

type_synonym contents = "(string \<times> string) list"

text \<open>\<^verbatim>\<open>all_content.get(key, "")\<close>\<close>

definition content_get :: "contents \<Rightarrow> string \<Rightarrow> string" where
  "content_get all_content key = (case map_of all_content key of None \<Rightarrow> [] | Some t \<Rightarrow> t)"

subsection \<open>Feature matcher\<close>

text \<open>The matchers assign to fields of \<open>feat\<close>; here they return the updated
  record. The parameters are those of the source, used or not.\<close>

definition implemented_in :: "Feature \<Rightarrow> string \<Rightarrow> Feature" where
  "implemented_in feat file = feat\<lparr>status := ''implemented'', rust_file := file\<rparr>"

text \<open>The table \<^verbatim>\<open>route_keywords\<close> of \<^verbatim>\<open>_match_api_endpoint\<close>, in the
  order of the dictionary literal.\<close>

definition route_keywords :: "(string \<times> string) list" where
  "route_keywords =
    [(''ping'', ''ping''),
     (''server/info'', ''server_info''),
     (''restart/soft'', ''restart_soft''),
     (''restart/hard'', ''restart_hard''),
     (''update/check'', ''check_update''),
     (''update/install'', ''install_update''),
     (''statistics/totals'', ''totals''),
     (''statistics/media'', ''media_totals''),
     (''server/logs'', ''logs''),
     (''chat/count'', ''chat_count''),
     (''chat/query'', ''query_chats''),
     (''chat/new'', ''create_chat''),
     (''message/count'', ''message_count''),
     (''message/query'', ''query_messages''),
     (''message/text'', ''send_text''),
     (''message/multipart'', ''send_multipart''),
     (''message/react'', ''send_reaction''),
     (''message/schedule'', ''scheduled_message''),
     (''attachment/count'', ''attachment_count''),
     (''attachment/upload'', ''send_attachment''),
     (''handle/count'', ''handle_count''),
     (''handle/query'', ''query_handles''),
     (''handle/availability/imessage'', ''check_imessage''),
     (''handle/availability/facetime'', ''check_facetime''),
     (''contact'', ''contacts''),
     (''contact/query'', ''query_contacts''),
     (''contact/upload'', ''upload_contacts''),
     (''fcm/device'', ''register_fcm''),
     (''fcm/client'', ''get_fcm''),
     (''mac/lock'', ''lock_mac''),
     (''mac/imessage/restart'', ''restart_imessage''),
     (''backup/theme'', ''theme_backup''),
     (''backup/settings'', ''settings_backup''),
     (''facetime/answer'', ''answer_facetime''),
     (''facetime/leave'', ''leave_facetime''),
     (''icloud/findmy/devices'', ''findmy_devices''),
     (''icloud/findmy/friends'', ''findmy_friends''),
     (''icloud/account'', ''icloud_account''),
     (''icloud/contact'', ''icloud_contact''),
     (''icloud/account/alias'', ''icloud_alias'')]"

text \<open>The \<^verbatim>\<open>if not matched:\<close> block of \<^verbatim>\<open>_match_api_endpoint\<close>: the chain
  of special cases. In its last five branches the test of the module text is an inner
  \<^verbatim>\<open>if\<close>, so a branch whose outer test holds ends the chain even when it
  assigns nothing.\<close>

definition match_api_specific :: "Feature \<Rightarrow> string \<Rightarrow> string \<Rightarrow> string \<Rightarrow> Feature" where
  "match_api_specific feat method route api_content =
    (if py_in ''/read'' route \<and> py_in ''mark_chat_read'' api_content
       then implemented_in feat ''bb-api/src/endpoints/chats.rs''
     else if py_in ''/unread'' route \<and> py_in ''mark_chat_unread'' api_content
       then implemented_in feat ''bb-api/src/endpoints/chats.rs''
     else if py_in ''/leave'' route \<and> py_in ''leave_chat'' api_content
       then implemented_in feat ''bb-api/src/endpoints/chats.rs''
     else if py_in ''/participant/add'' route \<and> py_in ''add_participant'' api_content
       then implemented_in feat ''bb-api/src/endpoints/chats.rs''
     else if py_in ''/participant/remove'' route \<and> py_in ''remove_participant'' api_content
       then implemented_in feat ''bb-api/src/endpoints/chats.rs''
     else if py_in ''/icon'' route \<and> py_in ''chat_icon'' api_content
       then implemented_in feat ''bb-api/src/endpoints/chats.rs''
     else if py_in ''embedded-media'' route \<and> py_in ''embedded_media'' api_content
       then implemented_in feat ''bb-api/src/endpoints/messages.rs''
     else if py_in ''/unsend'' route \<and> py_in ''unsend_message'' api_content
       then implemented_in feat ''bb-api/src/endpoints/messages.rs''
     else if py_in ''/edit'' route \<and> py_in ''edit_message'' api_content
       then implemented_in feat ''bb-api/src/endpoints/messages.rs''
     else if py_in ''/notify'' route \<and> py_in ''notify_message'' api_content
       then implemented_in feat ''bb-api/src/endpoints/messages.rs''
     else if py_in ''/live'' route \<and> py_in ''live_photo'' api_content
       then implemented_in feat ''bb-api/src/endpoints/attachments.rs''
     else if py_in ''/blurhash'' route \<and> py_in ''blurhash'' api_content
       then implemented_in feat ''bb-api/src/endpoints/attachments.rs''
     else if py_in ''/download'' route \<and> py_in ''download_attachment'' api_content
       then implemented_in feat ''bb-api/src/endpoints/attachments.rs''
     else if py_in ''/focus'' route \<and> py_in ''handle_focus'' api_content
       then implemented_in feat ''bb-api/src/endpoints/handles.rs''
     else if py_in ''findmy/devices/refresh'' route \<and> py_in ''refresh_findmy_devices'' api_content
       then implemented_in feat ''bb-api/src/endpoints/icloud.rs''
     else if py_in ''findmy/friends/refresh'' route \<and> py_in ''refresh_findmy_friends'' api_content
       then implemented_in feat ''bb-api/src/endpoints/icloud.rs''
     else if py_in '':guid'' route \<and> method = ''GET'' \<and> py_in ''get_chat'' api_content
             \<and> subcategory feat = ''Chat''
       then implemented_in feat ''bb-api/src/endpoints/chats.rs''
     else if py_in '':guid'' route \<and> method = ''PUT'' \<and> py_in ''update_chat'' api_content
             \<and> subcategory feat = ''Chat''
       then implemented_in feat ''bb-api/src/endpoints/chats.rs''
     else if py_in '':guid'' route \<and> method = ''DELETE'' \<and> py_in ''delete_chat'' api_content
             \<and> subcategory feat = ''Chat''
       then implemented_in feat ''bb-api/src/endpoints/chats.rs''
     else if py_in ''/message'' route \<and> py_in '':guid'' route \<and> method = ''GET''
             \<and> subcategory feat = ''Chat''
       then (if py_in ''get_chat_messages'' api_content
             then implemented_in feat ''bb-api/src/endpoints/chats.rs'' else feat)
     else if py_in '':messageGuid'' route \<and> method = ''DELETE'' \<and> subcategory feat = ''Chat''
       then (if py_in ''delete_chat_message'' api_content
             then implemented_in feat ''bb-api/src/endpoints/chats.rs'' else feat)
     else if py_in '':guid'' route \<and> method = ''GET'' \<and> subcategory feat = ''Message''
       then (if py_in ''get_message'' api_content
             then implemented_in feat ''bb-api/src/endpoints/messages.rs'' else feat)
     else if py_in '':guid'' route \<and> method = ''GET'' \<and> subcategory feat = ''Attachment''
       then (if py_in ''get_attachment'' api_content
             then implemented_in feat ''bb-api/src/endpoints/attachments.rs'' else feat)
     else if py_in '':guid'' route \<and> method = ''GET'' \<and> subcategory feat = ''Handle''
       then (if py_in ''get_handle'' api_content
             then implemented_in feat ''bb-api/src/endpoints/handles.rs'' else feat)
     else feat)"

text \<open>\<^verbatim>\<open>_match_api_endpoint\<close>. The unused \<^verbatim>\<open>route_pattern\<close> of the source
  is left out. \<^verbatim>\<open>significant[-2:]\<close> is the list of the last two elements.\<close>

definition match_api_endpoint :: "Feature \<Rightarrow> crates \<Rightarrow> contents \<Rightarrow> Feature" where
  "match_api_endpoint feat crates all_content =
    (let ep = name feat;
         api_content = content_get all_content ''bb-api''
     in case py_split1 CHR '' '' ep of
          method # path # _ \<Rightarrow>
            (let route = py_replace ''/api/v1'' [] path;
                 route_rust = sub_params route;
                 route_segments = py_split CHR ''/'' route;
                 significant = filter (\<lambda>s. s \<noteq> [] \<and> \<not> prefix '':'' s) route_segments;
                 endpoint_file = ''bb-api/src/endpoints/'' @ py_lower (subcategory feat) @ ''.rs''
             in if py_in route_rust api_content \<or> py_in (quoted route) api_content
                  then implemented_in feat endpoint_file
                else if 2 \<le> length significant
                        \<and> list_all (\<lambda>s. py_in s api_content)
                              (drop (length significant - 2) significant)
                  then implemented_in feat endpoint_file
                else (case find (\<lambda>(route_key, fn_key). py_in route_key route \<and> py_in fn_key api_content)
                             route_keywords of
                        Some _ \<Rightarrow> implemented_in feat endpoint_file
                      | None \<Rightarrow> match_api_specific feat method route api_content))
        | _ \<Rightarrow> feat)"

text \<open>\<^verbatim>\<open>_event_to_variant\<close>\<close>

definition event_to_variant :: "string \<Rightarrow> string" where
  "event_to_variant event_name =
    (case map_of
        [(''new-message'', ''NewMessage''),
         (''updated-message'', ''UpdatedMessage''),
         (''typing-indicator'', ''TypingIndicator''),
         (''group-name-change'', ''ChatUpdate''),
         (''chat-read-status-changed'', ''ChatReadStatusChanged''),
         (''participant-removed'', ''ParticipantRemoved''),
         (''participant-added'', ''ParticipantAdded''),
         (''participant-left'', ''ParticipantLeft''),
         (''group-icon-changed'', ''GroupIconChanged''),
         (''incoming-facetime'', ''IncomingFaceTime''),
         (''ft-call-status-changed'', ''FtCallStatusChanged''),
         (''imessage-aliases-removed'', ''IMessageAliasRemoved''),
         (''server-update'', ''ServerUpdate'')] event_name of
       Some v \<Rightarrow> v
     | None \<Rightarrow> event_name)"

text \<open>The \<^verbatim>\<open>Socket Events\<close> branch of \<^verbatim>\<open>_match_single_feature\<close>.\<close>

definition match_socket_event :: "Feature \<Rightarrow> contents \<Rightarrow> Feature" where
  "match_socket_event feat all_content =
    (let event_name = name feat
     in if py_in (quoted event_name) (content_get all_content ''bb-socket'')
          then feat\<lparr>status := ''implemented'', rust_file := ''bb-socket/src/events.rs'',
                    rust_symbol := ''SocketEventType::'' @ event_to_variant event_name\<rparr>
        else if event_name = ''chat-read-status-changed'' \<or> event_name = ''ft-call-status-changed''
          then feat\<lparr>status := ''missing'', notes := ''Not in event enum yet''\<rparr>
        else feat)"

text \<open>\<^verbatim>\<open>feat.name.split(".", 1)[1] if "." in feat.name else feat.name\<close>\<close>

definition after_dot :: "string \<Rightarrow> string" where
  "after_dot n =
    (if py_in ''.'' n then (case py_split1 CHR ''.'' n of _ # m # _ \<Rightarrow> m | _ \<Rightarrow> n) else n)"

text \<open>\<^verbatim>\<open>_match_db_model\<close>\<close>

definition match_db_model ::
  "Feature \<Rightarrow> crates \<Rightarrow> string set \<Rightarrow> string set \<Rightarrow> contents \<Rightarrow> Feature" where
  "match_db_model feat crates all_functions all_structs all_content =
    (let model_name = subcategory feat;
         field_or_method = after_dot (name feat);
         models_content = content_get all_content ''bb-models''
     in if model_name \<in> all_structs \<or> py_in model_name models_content
        then (if py_in field_or_method models_content
              then (let model_file = py_lower model_name;
                        fname = (case map_of
                                   [(''ThemeStruct'', ''theme''),
                                    (''ScheduledMessage'', ''scheduled_message''),
                                    (''AttributedBody'', ''attributed_body''),
                                    (''PayloadData'', ''payload_data''),
                                    (''FcmData'', ''fcm_data'')] model_name of
                                   Some f \<Rightarrow> f | None \<Rightarrow> model_file)
                    in feat\<lparr>status := ''implemented'',
                            rust_file := ''bb-models/src/models/'' @ fname @ ''.rs'',
                            rust_symbol := model_name @ ''::'' @ field_or_method\<rparr>)
              else feat\<lparr>status := ''stubbed'',
                        notes := ''Struct exists but '' @ field_or_method @ '' not found''\<rparr>)
        else feat\<lparr>status := ''missing''\<rparr>)"

text \<open>The table \<^verbatim>\<open>checks\<close> of \<^verbatim>\<open>_match_db_infra\<close>, in the order of the
  dictionary literal.\<close>

definition db_infra_checks :: "string \<Rightarrow> (string \<times> bool) list" where
  "db_infra_checks models_content =
    [(''connection pooling'', py_in ''r2d2'' models_content \<or> py_in ''Pool'' models_content),
     (''wal mode'', py_in ''WAL'' models_content \<or> py_in ''wal_mode'' models_content),
     (''integrity check'', py_in ''integrity_check'' models_content),
     (''schema creation'', py_in ''create_tables'' models_content),
     (''versioned migrations'', py_in ''run_migrations'' models_content),
     (''transaction support'', py_in ''transaction'' models_content),
     (''database reset'', py_in ''reset'' models_content \<and> py_in ''drop_tables'' models_content),
     (''database stats'', py_in ''DatabaseStats'' models_content \<or> py_in ''stats'' models_content),
     (''settings key-value store'', py_in ''settings'' models_content \<and> py_in ''key'' models_content),
     (''chat-handle join table'', py_in ''chat_handle_join'' models_content)]"

text \<open>\<^verbatim>\<open>_match_db_infra\<close>: the first entry of the table whose key occurs in the
  lower-cased name decides, and the function returns there.\<close>

definition match_db_infra :: "Feature \<Rightarrow> crates \<Rightarrow> contents \<Rightarrow> Feature" where
  "match_db_infra feat crates all_content =
    (let models_content = content_get all_content ''bb-models'';
         name_l = py_lower (name feat)
     in case find (\<lambda>(check_name, result). py_in check_name name_l) (db_infra_checks models_content) of
          Some (check_name, result) \<Rightarrow>
            feat\<lparr>status := (if result then ''implemented'' else ''missing''),
                 rust_file := ''bb-models/src/db.rs''\<rparr>
        | None \<Rightarrow>
            (if py_in name_l (py_lower models_content)
             then feat\<lparr>status := ''implemented''\<rparr>
             else feat\<lparr>status := ''missing''\<rparr>))"

text \<open>\<^verbatim>\<open>_match_service\<close>\<close>

definition match_service ::
  "Feature \<Rightarrow> crates \<Rightarrow> string set \<Rightarrow> string set \<Rightarrow> contents \<Rightarrow> Feature" where
  "match_service feat crates all_functions all_structs all_content =
    (let svc_content = content_get all_content ''bb-services''
     in if subcategory feat = ''Flutter-only''
        then feat\<lparr>status := ''missing'', notes := ''Flutter-specific service, not ported''\<rparr>
        else
          (let svc_name = subcategory feat;
               method_name = after_dot (name feat)
           in if py_in svc_name svc_content \<and> py_in method_name svc_content
              then (let fname = (case map_of
                                   [(''ChatService'', ''chat''),
                                    (''MessageService'', ''message''),
                                    (''ContactService'', ''contact''),
                                    (''AttachmentService'', ''attachment''),
                                    (''SyncService'', ''sync''),
                                    (''SettingsService'', ''settings''),
                                    (''NotificationService'', ''notification''),
                                    (''QueueService'', ''queue''),
                                    (''ServiceRegistry'', ''registry'')] svc_name of
                                   Some f \<Rightarrow> f | None \<Rightarrow> py_lower svc_name)
                    in feat\<lparr>status := ''implemented'',
                            rust_file := ''bb-services/src/'' @ fname @ ''.rs'',
                            rust_symbol := svc_name @ ''::'' @ method_name\<rparr>)
              else if py_in svc_name svc_content
              then feat\<lparr>status := ''stubbed'',
                        notes := ''Service exists but '' @ method_name @ '' not found''\<rparr>
              else feat\<lparr>status := ''missing''\<rparr>))"

text \<open>\<^verbatim>\<open>_match_cli_command\<close>; the source's \<^verbatim>\<open>group\<close> is \<open>grp\<close>.\<close>

definition match_cli_command :: "Feature \<Rightarrow> crates \<Rightarrow> contents \<Rightarrow> Feature" where
  "match_cli_command feat crates all_content =
    (let cli_content = content_get all_content ''bb-cli''
     in case py_split CHR '' '' (name feat) of
          _ # grp # cmd # _ \<Rightarrow>
            (if py_in grp cli_content
                \<and> (py_in (py_replace ''-'' ''_'' cmd) cli_content
                   \<or> py_in (py_capitalize (py_replace ''-'' [] cmd)) cli_content
                   \<or> py_in (py_title cmd) cli_content)
             then implemented_in feat (''bb-cli/src/commands/'' @ grp @ ''.rs'')
             else if py_in grp cli_content
             then feat\<lparr>status := ''stubbed'', notes := ''Module exists, checking for '' @ cmd\<rparr>
             else feat\<lparr>status := ''missing''\<rparr>)
        | [_, grp] \<Rightarrow>
            (if py_in grp cli_content
             then implemented_in feat (''bb-cli/src/commands/'' @ grp @ ''.rs'')
             else feat)
        | _ \<Rightarrow> feat)"

text \<open>The table \<^verbatim>\<open>keyword_map\<close> of \<^verbatim>\<open>_match_core\<close>: key, search term, the text
  searched, evidence file.\<close>

definition keyword_map :: "string \<Rightarrow> string \<Rightarrow> string \<Rightarrow> (string \<times> string \<times> string \<times> string) list" where
  "keyword_map core_content socket_content services_content =
    [(''AppConfig'', ''AppConfig'', core_content, ''bb-core/src/config.rs''),
     (''ServerConfig'', ''ServerConfig'', core_content, ''bb-core/src/config.rs''),
     (''DatabaseConfig'', ''DatabaseConfig'', core_content, ''bb-core/src/config.rs''),
     (''LoggingConfig'', ''LoggingConfig'', core_content, ''bb-core/src/config.rs''),
     (''SyncConfig'', ''SyncConfig'', core_content, ''bb-core/src/config.rs''),
     (''NotificationConfig'', ''NotificationConfig'', core_content, ''bb-core/src/config.rs''),
     (''DisplayConfig'', ''DisplayConfig'', core_content, ''bb-core/src/config.rs''),
     (''ConfigHandle'', ''ConfigHandle'', core_content, ''bb-core/src/config.rs''),
     (''BbError'', ''BbError'', core_content, ''bb-core/src/error.rs''),
     (''MessageError'', ''MessageError'', core_content, ''bb-core/src/error.rs''),
     (''init_logging'', ''init_logging'', core_content, ''bb-core/src/logging.rs''),
     (''init_console_logging'', ''init_console_logging'', core_content, ''bb-core/src/logging.rs''),
     (''Platform detection'', ''Platform'', core_content, ''bb-core/src/platform.rs''),
     (''Platform data_dir'', ''data_dir'', core_content, ''bb-core/src/platform.rs''),
     (''Constants'', ''reactions'', core_content, ''bb-core/src/constants.rs''),
     (''AES-256-CBC'', ''AesCrypto'', socket_content, ''bb-socket/src/crypto.rs''),
     (''SocketEventType'', ''SocketEventType'', socket_content, ''bb-socket/src/events.rs''),
     (''EventDispatcher'', ''EventDispatcher'', socket_content, ''bb-socket/src/events.rs''),
     (''ConnectionState'', ''ConnectionState'', socket_content, ''bb-socket/src/events.rs''),
     (''SocketManager'', ''SocketManager'', socket_content, ''bb-socket/src/manager.rs''),
     (''Reconnect with exponential backoff'', ''reconnect_delay'', socket_content,
        ''bb-socket/src/manager.rs''),
     (''Event deduplication'', ''handled_guids'', socket_content, ''bb-socket/src/manager.rs''),
     (''Service trait'', ''trait Service'', services_content, ''bb-services/src/service.rs''),
     (''ServiceState'', ''ServiceState'', services_content, ''bb-services/src/service.rs'')]"

text \<open>\<^verbatim>\<open>_match_core\<close>\<close>

definition match_core ::
  "Feature \<Rightarrow> crates \<Rightarrow> string set \<Rightarrow> string set \<Rightarrow> string set \<Rightarrow> contents \<Rightarrow> Feature" where
  "match_core feat crates all_functions all_structs all_enums all_content =
    (let core_content = content_get all_content ''bb-core'';
         socket_content = content_get all_content ''bb-socket'';
         services_content = content_get all_content ''bb-services''
     in case find (\<lambda>(key_name, search_term, content, file). py_in key_name (name feat))
               (keyword_map core_content socket_content services_content) of
          Some (key_name, search_term, content, file) \<Rightarrow>
            (if py_in search_term content
             then feat\<lparr>status := ''implemented'', rust_file := file, rust_symbol := search_term\<rparr>
             else feat\<lparr>status := ''missing''\<rparr>)
        | None \<Rightarrow> feat\<lparr>status := ''missing''\<rparr>)"

text \<open>\<^verbatim>\<open>_match_setting\<close>\<close>

definition match_setting :: "Feature \<Rightarrow> contents \<Rightarrow> Feature" where
  "match_setting feat all_content =
    (let core_content = content_get all_content ''bb-core'';
         snake = snake_of (name feat)
     in if py_in snake core_content \<or> py_in (name feat) core_content
        then implemented_in feat ''bb-core/src/config.rs''
        else feat\<lparr>status := ''missing'', notes := ''Not in TOML config yet''\<rparr>)"

text \<open>\<^verbatim>\<open>_match_single_feature\<close>: dispatch on the category; an entry of any other
  category is left as it is.\<close>

definition match_single_feature ::
  "Feature \<Rightarrow> crates \<Rightarrow> string set \<Rightarrow> string set \<Rightarrow> string set \<Rightarrow> contents \<Rightarrow> string \<Rightarrow> Feature" where
  "match_single_feature feat crates all_functions all_structs all_enums all_content joined_content =
    (if category feat = ''API Endpoints'' then match_api_endpoint feat crates all_content
     else if category feat = ''Socket Events'' then match_socket_event feat all_content
     else if category feat = ''DB Models''
       then match_db_model feat crates all_functions all_structs all_content
     else if category feat = ''DB Infrastructure'' then match_db_infra feat crates all_content
     else if category feat = ''Services''
       then match_service feat crates all_functions all_structs all_content
     else if category feat = ''CLI Commands'' then match_cli_command feat crates all_content
     else if category feat = ''Core Infrastructure''
       then match_core feat crates all_functions all_structs all_enums all_content
     else if category feat = ''Settings'' then match_setting feat all_content
     else if category feat = ''UI Screens''
       then feat\<lparr>status := ''missing'', notes := ''Tauri UI not yet started''\<rparr>
     else feat)"

text \<open>\<^verbatim>\<open>match_features\<close>. The files are read through \<open>read_text\<close>, which gives
  \<open>None\<close> where the source's \<^verbatim>\<open>read_text\<close> raises. The loop assigns to each
  entry of the list in turn; the result is the list of the updated entries.\<close>

definition crate_content :: "(string \<Rightarrow> string option) \<Rightarrow> CrateInfo \<Rightarrow> string" where
  "crate_content read_text info =
     py_join [CHR 0x0A]
       (concat (map (\<lambda>fpath. case read_text fpath of None \<Rightarrow> [] | Some t \<Rightarrow> [t]) (files info)))"

definition build_all_content :: "(string \<Rightarrow> string option) \<Rightarrow> crates \<Rightarrow> contents" where
  "build_all_content read_text crates =
     foldl (\<lambda>all_content (crate_name, info).
              AList.update crate_name (crate_content read_text info) all_content) [] crates"

definition match_features ::
  "(string \<Rightarrow> string option) \<Rightarrow> Feature list \<Rightarrow> crates \<Rightarrow> Feature list" where
  "match_features read_text features crates =
    (let all_functions = set (concat (map (\<lambda>(crate_name, info). functions info) crates));
         all_structs = set (concat (map (\<lambda>(crate_name, info). structs info) crates));
         all_enums = set (concat (map (\<lambda>(crate_name, info). enums info) crates));
         all_content = build_all_content read_text crates;
         joined_content = py_join [CHR 0x0A] (map snd all_content)
     in map (\<lambda>feat. match_single_feature feat crates all_functions all_structs all_enums
                       all_content joined_content) features)"

subsection \<open>Source scanner\<close>

text \<open>The regular expressions of \<^verbatim>\<open>scan_rust_source\<close>. A pattern is a function
  that, tried at the start of a text, gives the captured group and the length of the
  match. The pieces below strip a literal, \<^verbatim>\<open>\s+\<close> and \<^verbatim>\<open>(\w+)\<close> from the
  front of a text and give the rest. Both repetitions are greedy; giving back a
  character never helps in these patterns, since what follows \<^verbatim>\<open>\s+\<close> never starts
  with a space and what follows \<^verbatim>\<open>\w+\<close> never starts with a word character.\<close>

definition lit :: "string \<Rightarrow> string \<Rightarrow> string option" where
  "lit p s = (if prefix p s then Some (drop (length p) s) else None)"

definition spaces1 :: "string \<Rightarrow> string option" where
  "spaces1 s = (if takeWhile is_space s = [] then None else Some (dropWhile is_space s))"

definition word1 :: "string \<Rightarrow> (string \<times> string) option" where
  "word1 s =
     (if takeWhile is_word s = [] then None
      else Some (takeWhile is_word s, dropWhile is_word s))"

definition matched :: "string \<Rightarrow> (string \<times> string) option \<Rightarrow> (string \<times> nat) option" where
  "matched s r = map_option (\<lambda>(g, rest). (g, length s - length rest)) r"

text \<open>\<^verbatim>\<open>pub\s+struct\s+(\w+)\<close>, \<^verbatim>\<open>pub\s+enum\s+(\w+)\<close> and
  \<^verbatim>\<open>pub\s+trait\s+(\w+)\<close>\<close>

definition re_pub_kw :: "string \<Rightarrow> string \<Rightarrow> (string \<times> nat) option" where
  "re_pub_kw kw s =
     matched s (Option.bind (Option.bind (Option.bind (Option.bind (lit ''pub'' s) spaces1)
                  (lit kw)) spaces1) word1)"

text \<open>\<^verbatim>\<open>pub\s+(?:async\s+)?fn\s+(\w+)\<close>: the optional group is tried first.\<close>

definition re_pub_fn :: "string \<Rightarrow> (string \<times> nat) option" where
  "re_pub_fn s =
     matched s
       (Option.bind (Option.bind (lit ''pub'' s) spaces1)
          (\<lambda>r. case Option.bind (Option.bind (Option.bind (Option.bind (lit ''async'' r) spaces1)
                         (lit ''fn'')) spaces1) word1 of
                 Some m \<Rightarrow> Some m
               | None \<Rightarrow> Option.bind (Option.bind (lit ''fn'' r) spaces1) word1))"

text \<open>\<^verbatim>\<open>impl(?:\s+\w+\s+for)?\s+(\w+)\<close>: the optional group is tried first, and
  given up when the rest of the pattern does not match after it.\<close>

definition re_impl :: "string \<Rightarrow> (string \<times> nat) option" where
  "re_impl s =
     matched s
       (Option.bind (lit ''impl'' s)
          (\<lambda>r. case Option.bind (Option.bind (Option.bind (Option.bind (Option.bind (spaces1 r) word1)
                         (\<lambda>(w, r'). spaces1 r')) (lit ''for'')) spaces1) word1 of
                 Some m \<Rightarrow> Some m
               | None \<Rightarrow> Option.bind (spaces1 r) word1))"

text \<open>\<^verbatim>\<open>#\[(?:tokio::)?test\]\<close>; there is no group, the whole match is given.\<close>

definition re_test :: "string \<Rightarrow> (string \<times> nat) option" where
  "re_test s =
     (if prefix ''#[tokio::test]'' s then Some (''#[tokio::test]'', 14)
      else if prefix ''#[test]'' s then Some (''#[test]'', 7)
      else None)"

text \<open>\<^verbatim>\<open>re.finditer\<close>: the matches from left to right, without overlap; the
  groups are collected.\<close>

function finditer :: "(string \<Rightarrow> (string \<times> nat) option) \<Rightarrow> string \<Rightarrow> string list" where
  "finditer pat [] = []"
| "finditer pat (c # cs) =
     (case pat (c # cs) of
        Some (g, n) \<Rightarrow> g # finditer pat (drop (n - 1) cs)
      | None \<Rightarrow> finditer pat cs)"
  by pat_completeness auto
termination
  by (relation "measure (\<lambda>(pat, s). length s)") (auto simp: less_Suc_eq_le)

text \<open>One element of \<^verbatim>\<open>root.rglob("*.rs")\<close>: the parts of its path relative to the
  root, and what \<^verbatim>\<open>read_text\<close> gives (\<open>None\<close> where it raises).\<close>

record SourceFile =
  rel_parts :: "string list"
  text_of :: "string option"

text \<open>The part of the loop body after the \<^verbatim>\<open>try\<close>: what a text adds to a
  record.\<close>

definition extract_symbols :: "CrateInfo \<Rightarrow> string \<Rightarrow> CrateInfo" where
  "extract_symbols info content =
     info\<lparr>line_count := line_count info + (int (length (filter (\<lambda>c. c = CHR 0x0A) content)) + 1),
          test_count := test_count info + int (length (finditer re_test content)),
          structs := structs info @ finditer (re_pub_kw ''struct'') content,
          enums := enums info @ finditer (re_pub_kw ''enum'') content,
          traits := traits info @ finditer (re_pub_kw ''trait'') content,
          functions := functions info @ finditer re_pub_fn content,
          impls := impls info @ finditer re_impl content\<rparr>"

text \<open>The crate a file belongs to, and whether the loop skips it.\<close>

definition crate_of :: "SourceFile \<Rightarrow> string" where
  "crate_of rs_file = (case rel_parts rs_file of [] \<Rightarrow> ''unknown'' | p # _ \<Rightarrow> p)"

definition skipped :: "string list \<Rightarrow> SourceFile \<Rightarrow> bool" where
  "skipped root_parts rs_file = (''target'' \<in> set (root_parts @ rel_parts rs_file))"

text \<open>What one file does to the record of its crate: the path is appended to
  \<^verbatim>\<open>files\<close> first; a file whose read raises adds nothing else.\<close>

definition scan_file :: "CrateInfo \<Rightarrow> SourceFile \<Rightarrow> CrateInfo" where
  "scan_file info rs_file =
     (let info1 = info\<lparr>files := files info @ [py_join ''/'' (rel_parts rs_file)]\<rparr>
      in case text_of rs_file of
           None \<Rightarrow> info1
         | Some content \<Rightarrow> extract_symbols info1 content)"

text \<open>The loop body of \<^verbatim>\<open>scan_rust_source\<close>; \<open>root_parts\<close> holds the parts of the
  root path, which are part of \<^verbatim>\<open>rs_file.parts\<close>.\<close>

definition scan_step :: "string list \<Rightarrow> crates \<Rightarrow> SourceFile \<Rightarrow> crates" where
  "scan_step root_parts crates rs_file =
     (if skipped root_parts rs_file then crates
      else
        (let crate_name = crate_of rs_file;
             info = (case map_of crates crate_name of
                       None \<Rightarrow> new_CrateInfo crate_name
                     | Some i \<Rightarrow> i)
         in AList.update crate_name (scan_file info rs_file) crates))"

definition scan_rust_source :: "string list \<Rightarrow> SourceFile list \<Rightarrow> crates" where
  "scan_rust_source root_parts rs_files = foldl (scan_step root_parts) [] rs_files"

subsection \<open>Coverage percentages\<close>










subsection \<open>Notions used in the statements and proofs\<close>

text \<open>Two entries with the same category, subcategory and name.\<close>

definition same_key :: "Feature \<Rightarrow> Feature \<Rightarrow> bool" where
  "same_key g f \<longleftrightarrow> category g = category f \<and> subcategory g = subcategory f \<and> name g = name f"

text \<open>\<open>agree g' g f' f\<close>: going from \<open>g\<close> to \<open>g'\<close> and from \<open>f\<close> to \<open>f'\<close>, each
  of the four result fields was either assigned the same value in both or left alone in
  both, and the key of \<open>g\<close> was kept.\<close>

definition agree :: "Feature \<Rightarrow> Feature \<Rightarrow> Feature \<Rightarrow> Feature \<Rightarrow> bool" where
  "agree g' g f' f \<longleftrightarrow>
     same_key g' g \<and>
     (status g' = status f' \<or> status g' = status g \<and> status f' = status f) \<and>
     (rust_file g' = rust_file f' \<or> rust_file g' = rust_file g \<and> rust_file f' = rust_file f) \<and>
     (rust_symbol g' = rust_symbol f' \<or>
        rust_symbol g' = rust_symbol g \<and> rust_symbol f' = rust_symbol f) \<and>
     (notes g' = notes f' \<or> notes g' = notes g \<and> notes f' = notes f)"

text \<open>The files of a walk that the scanner puts into crate \<open>n\<close>, in the order of the
  walk, and the texts of those files of a list that could be read.\<close>

definition crate_files :: "string list \<Rightarrow> string \<Rightarrow> SourceFile list \<Rightarrow> SourceFile list" where
  "crate_files root_parts n rs_files =
     filter (\<lambda>x. \<not> skipped root_parts x \<and> crate_of x = n) rs_files"

definition readable_texts :: "SourceFile list \<Rightarrow> string list" where
  "readable_texts rs_files = List.map_filter text_of rs_files"

text \<open>Two records with the same name, the same counts and, as sets, the same symbols.\<close>

definition same_contents :: "CrateInfo \<Rightarrow> CrateInfo \<Rightarrow> bool" where
  "same_contents a b \<longleftrightarrow>
     crate_name a = crate_name b \<and> line_count a = line_count b \<and> test_count a = test_count b \<and>
     set (structs a) = set (structs b) \<and> set (enums a) = set (enums b) \<and>
     set (traits a) = set (traits b) \<and> set (functions a) = set (functions b) \<and>
     set (impls a) = set (impls b)"

text \<open>What a matcher may leave in an entry \<open>r\<close> made from \<open>f\<close>: a status that is
  the old one, implemented or missing; and evidence only on an implemented entry.\<close>

definition never_stubs :: "Feature \<Rightarrow> Feature \<Rightarrow> bool" where
  "never_stubs f r \<longleftrightarrow> status r \<in> {status f, ''implemented'', ''missing''}"

definition evidence_kept :: "Feature \<Rightarrow> Feature \<Rightarrow> bool" where
  "evidence_kept f r \<longleftrightarrow>
     (status r \<noteq> ''implemented'' \<longrightarrow> rust_file r = rust_file f \<and> rust_symbol r = rust_symbol f)"

text \<open>The derived form of a settings name as the specification words it: every
  character is paired with its predecessor, a separator is put before an upper-case
  letter whose predecessor is a lower-case letter, and the result is lower-cased.\<close>

definition derived_variant :: "string \<Rightarrow> string" where
  "derived_variant s =
     py_lower (concat (map (\<lambda>(prev, c).
                  if (case prev of None \<Rightarrow> False | Some p \<Rightarrow> is_lower p) \<and> is_upper c
                  then [CHR ''_'', c] else [c])
               (zip (None # map Some s) s)))"

section \<open>Properties\<close>

subsection \<open>Strings\<close>

lemma py_in_sublist: "py_in sub s = sublist sub s"
  by (induction s) (auto simp: sublist_Cons_right)

lemma py_in_middle: "py_in m (a @ m @ b)"
  by (simp add: py_in_sublist)

lemma after_dot_member:
  assumes "CHR ''.'' \<notin> set t"
  shows "after_dot (t @ ''.'' @ m) = m"
proof -
  have "py_in ''.'' (t @ ''.'' @ m)"
    by (rule py_in_middle)
  moreover from assms have "dropWhile (\<lambda>c. c \<noteq> CHR ''.'') (t @ ''.'' @ m) = ''.'' @ m"
    by (auto simp: dropWhile_append3)
  ultimately show ?thesis
    by (simp add: after_dot_def py_split1_def)
qed

lemma camel_sub_zip:
  "camel_sub prev s =
     concat (map (\<lambda>(p, c).
               if (case p of None \<Rightarrow> False | Some q \<Rightarrow> is_lower q) \<and> is_upper c
               then [CHR ''_'', c] else [c])
            (zip (prev # map Some s) s))"
  by (induction s arbitrary: prev) simp_all

subsection \<open>The matcher, branch by branch\<close>

lemma never_stubs_if:
  assumes "c \<Longrightarrow> never_stubs f a" and "\<not> c \<Longrightarrow> never_stubs f b"
  shows "never_stubs f (if c then a else b)"
  using assms by simp

lemma evidence_kept_if:
  assumes "c \<Longrightarrow> evidence_kept f a" and "\<not> c \<Longrightarrow> evidence_kept f b"
  shows "evidence_kept f (if c then a else b)"
  using assms by simp

lemma outcome_leaves:
  "never_stubs f f"
  "never_stubs f (implemented_in f file)"
  "evidence_kept f f"
  "evidence_kept f (implemented_in f file)"
  by (simp_all add: never_stubs_def evidence_kept_def implemented_in_def)

lemma match_api_specific_outcome:
  "never_stubs feat (match_api_specific feat method route api_content)"
  "evidence_kept feat (match_api_specific feat method route api_content)"
  unfolding match_api_specific_def
  by (intro never_stubs_if evidence_kept_if outcome_leaves)+

lemma match_api_endpoint_outcome:
  "never_stubs feat (match_api_endpoint feat crates all_content)"
  "evidence_kept feat (match_api_endpoint feat crates all_content)"
  unfolding match_api_endpoint_def Let_def
  by (auto split: list.split option.split
      intro!: never_stubs_if evidence_kept_if outcome_leaves match_api_specific_outcome)

lemma match_socket_event_outcome:
  "never_stubs feat (match_socket_event feat all_content)"
  "evidence_kept feat (match_socket_event feat all_content)"
  unfolding match_socket_event_def Let_def
  by (intro never_stubs_if evidence_kept_if; simp add: never_stubs_def evidence_kept_def)+

lemma match_db_model_outcome:
  "evidence_kept feat (match_db_model feat crates all_functions all_structs all_content)"
  unfolding match_db_model_def Let_def
  by (intro evidence_kept_if; simp add: evidence_kept_def)

lemma match_db_infra_outcome:
  "never_stubs feat (match_db_infra feat crates all_content)"
  "rust_symbol (match_db_infra feat crates all_content) = rust_symbol feat"
  by (simp_all add: match_db_infra_def Let_def never_stubs_def split: option.split prod.split)

lemma match_service_outcome:
  "evidence_kept feat (match_service feat crates all_functions all_structs all_content)"
  unfolding match_service_def Let_def
  by (intro evidence_kept_if; simp add: evidence_kept_def)

lemma match_cli_command_outcome:
  "evidence_kept feat (match_cli_command feat crates all_content)"
  unfolding match_cli_command_def Let_def
  by (auto split: list.split intro!: evidence_kept_if outcome_leaves
      simp: evidence_kept_def implemented_in_def)

lemma match_core_outcome:
  "never_stubs feat (match_core feat crates all_functions all_structs all_enums all_content)"
  "evidence_kept feat (match_core feat crates all_functions all_structs all_enums all_content)"
  by (simp_all add: match_core_def Let_def never_stubs_def evidence_kept_def
      split: option.split prod.split)

lemma match_setting_outcome:
  "never_stubs feat (match_setting feat all_content)"
  "evidence_kept feat (match_setting feat all_content)"
  unfolding match_setting_def Let_def
  by (intro never_stubs_if evidence_kept_if outcome_leaves;
      simp add: never_stubs_def evidence_kept_def)+

lemma match_single_feature_never_stubs:
  assumes "category feat \<noteq> ''DB Models''" and "category feat \<noteq> ''Services''"
    and "category feat \<noteq> ''CLI Commands''"
  shows "never_stubs feat
           (match_single_feature feat crates all_functions all_structs all_enums all_content
              joined_content)"
proof -
  have ui: "never_stubs feat (feat\<lparr>status := ''missing'', notes := ''Tauri UI not yet started''\<rparr>)"
    by (simp add: never_stubs_def)
  show ?thesis
    unfolding match_single_feature_def
    using assms
    by (auto intro!: ui outcome_leaves match_api_endpoint_outcome match_socket_event_outcome
        match_db_infra_outcome match_core_outcome match_setting_outcome)
qed

lemma match_single_feature_evidence_kept:
  assumes "category feat \<noteq> ''DB Infrastructure''"
  shows "evidence_kept feat
           (match_single_feature feat crates all_functions all_structs all_enums all_content
              joined_content)"
proof -
  have ui: "evidence_kept feat (feat\<lparr>status := ''missing'', notes := ''Tauri UI not yet started''\<rparr>)"
    by (simp add: evidence_kept_def)
  show ?thesis
    unfolding match_single_feature_def
    using assms
    by (auto intro!: ui outcome_leaves match_api_endpoint_outcome match_socket_event_outcome
        match_db_model_outcome match_service_outcome match_cli_command_outcome
        match_core_outcome match_setting_outcome)
qed

lemma match_single_feature_symbol_on_infra:
  assumes "category feat = ''DB Infrastructure''"
  shows "rust_symbol (match_single_feature feat crates all_functions all_structs all_enums
                        all_content joined_content) = rust_symbol feat"
  using assms by (simp add: match_single_feature_def match_db_infra_outcome)

subsection \<open>Matching an entry again\<close>

lemma agree_same: "agree g g f f"
  by (simp add: agree_def same_key_def)

lemma agree_implemented_in: "agree (implemented_in g file) g (implemented_in f file) f"
  by (simp add: agree_def same_key_def implemented_in_def)

lemma agree_if:
  assumes "c \<Longrightarrow> agree a g a' f" and "\<not> c \<Longrightarrow> agree b g b' f"
  shows "agree (if c then a else b) g (if c then a' else b') f"
  using assms by simp

lemma match_api_specific_agree:
  assumes "subcategory g = subcategory f"
  shows "agree (match_api_specific g method route api_content) g
               (match_api_specific f method route api_content) f"
  unfolding match_api_specific_def assms
  by (intro agree_if agree_same agree_implemented_in)

lemma match_api_endpoint_agree:
  assumes "same_key g f"
  shows "agree (match_api_endpoint g crates all_content) g (match_api_endpoint f crates all_content) f"
proof -
  from assms have k: "name g = name f" "subcategory g = subcategory f"
    by (simp_all add: same_key_def)
  show ?thesis
    unfolding match_api_endpoint_def Let_def k
    by (auto split: list.split option.split
        intro!: agree_if agree_same agree_implemented_in match_api_specific_agree k)
qed

lemma match_socket_event_agree:
  assumes "same_key g f"
  shows "agree (match_socket_event g all_content) g (match_socket_event f all_content) f"
proof -
  from assms have k: "name g = name f"
    by (simp add: same_key_def)
  show ?thesis
    unfolding match_socket_event_def Let_def k
    by (intro agree_if) (simp_all add: agree_def same_key_def)
qed

lemma match_db_model_agree:
  assumes "same_key g f"
  shows "agree (match_db_model g crates all_functions all_structs all_content) g
               (match_db_model f crates all_functions all_structs all_content) f"
proof -
  from assms have k: "name g = name f" "subcategory g = subcategory f"
    by (simp_all add: same_key_def)
  show ?thesis
    unfolding match_db_model_def Let_def k
    by (intro agree_if) (simp_all add: agree_def same_key_def)
qed

lemma match_db_infra_agree:
  assumes "same_key g f"
  shows "agree (match_db_infra g crates all_content) g (match_db_infra f crates all_content) f"
proof -
  from assms have k: "name g = name f"
    by (simp add: same_key_def)
  show ?thesis
    unfolding match_db_infra_def Let_def k
    by (simp add: agree_def same_key_def split: option.split prod.split)
qed

lemma match_service_agree:
  assumes "same_key g f"
  shows "agree (match_service g crates all_functions all_structs all_content) g
               (match_service f crates all_functions all_structs all_content) f"
proof -
  from assms have k: "name g = name f" "subcategory g = subcategory f"
    by (simp_all add: same_key_def)
  show ?thesis
    unfolding match_service_def Let_def k
    by (intro agree_if) (simp_all add: agree_def same_key_def)
qed

lemma match_cli_command_agree:
  assumes "same_key g f"
  shows "agree (match_cli_command g crates all_content) g (match_cli_command f crates all_content) f"
proof -
  from assms have k: "name g = name f"
    by (simp add: same_key_def)
  show ?thesis
    unfolding match_cli_command_def Let_def k
    by (auto split: list.split intro!: agree_if agree_same agree_implemented_in
        simp: agree_def same_key_def implemented_in_def)
qed

lemma match_core_agree:
  assumes "same_key g f"
  shows "agree (match_core g crates all_functions all_structs all_enums all_content) g
               (match_core f crates all_functions all_structs all_enums all_content) f"
proof -
  from assms have k: "name g = name f"
    by (simp add: same_key_def)
  show ?thesis
    unfolding match_core_def Let_def k
    by (auto split: option.split prod.split intro!: agree_if simp: agree_def same_key_def)
qed

lemma match_setting_agree:
  assumes "same_key g f"
  shows "agree (match_setting g all_content) g (match_setting f all_content) f"
proof -
  from assms have k: "name g = name f"
    by (simp add: same_key_def)
  show ?thesis
    unfolding match_setting_def Let_def k
    by (intro agree_if agree_implemented_in) (simp_all add: agree_def same_key_def)
qed

lemma match_single_feature_agree:
  assumes "same_key g f"
  shows "agree (match_single_feature g crates all_functions all_structs all_enums all_content
                  joined_content) g
               (match_single_feature f crates all_functions all_structs all_enums all_content
                  joined_content) f"
proof -
  from assms have k: "category g = category f"
    by (simp add: same_key_def)
  have ui: "agree (g\<lparr>status := ''missing'', notes := ''Tauri UI not yet started''\<rparr>) g
                  (f\<lparr>status := ''missing'', notes := ''Tauri UI not yet started''\<rparr>) f"
    by (simp add: agree_def same_key_def)
  show ?thesis
    unfolding match_single_feature_def k
    by (intro agree_if agree_same ui match_api_endpoint_agree match_socket_event_agree
        match_db_model_agree match_db_infra_agree match_service_agree match_cli_command_agree
        match_core_agree match_setting_agree assms)
qed

lemma match_single_feature_idem:
  "match_single_feature
      (match_single_feature f crates all_functions all_structs all_enums all_content joined_content)
      crates all_functions all_structs all_enums all_content joined_content
   = match_single_feature f crates all_functions all_structs all_enums all_content joined_content"
proof -
  let ?M = "\<lambda>x. match_single_feature x crates all_functions all_structs all_enums all_content
                   joined_content"
  have "same_key f f"
    by (simp add: same_key_def)
  then have "agree (?M f) f (?M f) f"
    by (rule match_single_feature_agree)
  then have "same_key (?M f) f"
    by (simp add: agree_def)
  then have "agree (?M (?M f)) (?M f) (?M f) f"
    by (rule match_single_feature_agree)
  then show ?thesis
    by (intro Feature.equality) (auto simp: agree_def same_key_def)
qed

subsection \<open>The scanner, crate by crate\<close>

lemma map_of_scan_step:
  "map_of (scan_step root_parts crates x) n =
     (if \<not> skipped root_parts x \<and> crate_of x = n
      then Some (scan_file (case map_of crates n of None \<Rightarrow> new_CrateInfo n | Some i \<Rightarrow> i) x)
      else map_of crates n)"
  by (simp add: scan_step_def Let_def update_conv')

lemma map_of_scan_fold:
  "map_of (foldl (scan_step root_parts) crates rs_files) n =
     (if crate_files root_parts n rs_files = [] then map_of crates n
      else Some (foldl scan_file (case map_of crates n of None \<Rightarrow> new_CrateInfo n | Some i \<Rightarrow> i)
                   (crate_files root_parts n rs_files)))"
proof (induction rs_files arbitrary: crates)
  case Nil
  then show ?case by (simp add: crate_files_def)
next
  case (Cons x xs)
  show ?case
    by (simp add: Cons.IH map_of_scan_step crate_files_def)
qed

lemma scan_file_fold_fields:
  "crate_name (foldl scan_file info xs) = crate_name info"
  "files (foldl scan_file info xs) = files info @ map (\<lambda>x. py_join ''/'' (rel_parts x)) xs"
  "line_count (foldl scan_file info xs) =
     line_count info
     + sum_list (map (\<lambda>c. int (length (filter (\<lambda>ch. ch = CHR 0x0A) c)) + 1) (readable_texts xs))"
  "test_count (foldl scan_file info xs) =
     test_count info + sum_list (map (\<lambda>c. int (length (finditer re_test c))) (readable_texts xs))"
  "structs (foldl scan_file info xs) =
     structs info @ concat (map (finditer (re_pub_kw ''struct'')) (readable_texts xs))"
  "enums (foldl scan_file info xs) =
     enums info @ concat (map (finditer (re_pub_kw ''enum'')) (readable_texts xs))"
  "traits (foldl scan_file info xs) =
     traits info @ concat (map (finditer (re_pub_kw ''trait'')) (readable_texts xs))"
  "functions (foldl scan_file info xs) =
     functions info @ concat (map (finditer re_pub_fn) (readable_texts xs))"
  "impls (foldl scan_file info xs) =
     impls info @ concat (map (finditer re_impl) (readable_texts xs))"
  by (induction xs arbitrary: info;
      simp add: scan_file_def extract_symbols_def readable_texts_def Let_def
           split: option.split)+

lemma mset_readable_texts:
  assumes "mset xs = mset ys"
  shows "mset (readable_texts xs) = mset (readable_texts ys)"
proof -
  have "mset (readable_texts zs)
        = image_mset (the \<circ> text_of) (filter_mset (\<lambda>x. text_of x \<noteq> None) (mset zs))" for zs
    by (induction zs) (auto simp: readable_texts_def split: option.split)
  with assms show ?thesis by simp
qed

lemma sum_list_mset_cong:
  fixes f :: "'a \<Rightarrow> int"
  assumes "mset xs = mset ys"
  shows "sum_list (map f xs) = sum_list (map f ys)"
proof -
  have "sum_list (map f xs) = sum_mset (image_mset f (mset xs))"
    by (simp flip: sum_mset_sum_list)
  also have "\<dots> = sum_mset (image_mset f (mset ys))"
    by (simp add: assms)
  also have "\<dots> = sum_list (map f ys)"
    by (simp flip: sum_mset_sum_list)
  finally show ?thesis .
qed

subsection \<open>Percentages\<close>




section \<open>The claims\<close>

text \<open>
  Claim C1, as stated: the infrastructure entry whose lower-cased name contains
  \<^verbatim>\<open>connection pooling\<close> is implemented only when both \<^verbatim>\<open>r2d2\<close> and
  \<^verbatim>\<open>Pool\<close> occur in the text of the model module. The table of
  \<^verbatim>\<open>_match_db_infra\<close> joins the two tests with \<^verbatim>\<open>or\<close>: with a text that holds
  \<^verbatim>\<open>Pool\<close> and not \<^verbatim>\<open>r2d2\<close>, the catalog entry is implemented.
\<close>

theorem pooling_both_tokens_counterexample:
  "\<not> py_in ''r2d2'' ''use deadpool::Pool;'' \<and>
   status (match_single_feature
             (new_Feature ''DB Infrastructure'' ''Core'' ''Connection pooling (r2d2)'')
             [] {} {} {} [(''bb-models'', ''use deadpool::Pool;'')] []) = ''implemented''"
  by (simp add: match_single_feature_def new_Feature_def match_db_infra_def content_get_def
      db_infra_checks_def py_lower_def lower_char_def upper_letters_def lower_letters_def)

text \<open>
  Claim C1, amended: an infrastructure entry whose lower-cased name contains
  \<^verbatim>\<open>connection pooling\<close> is implemented when at least one of \<^verbatim>\<open>r2d2\<close> and
  \<^verbatim>\<open>Pool\<close> occurs in the text of the model module, and missing when neither does.
\<close>

theorem pooling_either_token:
  assumes "category feat = ''DB Infrastructure''"
    and "py_in ''connection pooling'' (py_lower (name feat))"
  shows "status (match_single_feature feat crates all_functions all_structs all_enums all_content
                   joined_content)
         = (if py_in ''r2d2'' (content_get all_content ''bb-models'')
               \<or> py_in ''Pool'' (content_get all_content ''bb-models'')
            then ''implemented'' else ''missing'')"
  using assms
  by (simp add: match_single_feature_def match_db_infra_def db_infra_checks_def Let_def)

theorem pooling_either_token_witness:
  "py_in ''connection pooling'' (py_lower ''Connection pooling (r2d2)'') \<and>
   status (match_single_feature
             (new_Feature ''DB Infrastructure'' ''Core'' ''Connection pooling (r2d2)'')
             [] {} {} {} [(''bb-models'', ''r2d2::Pool::new'')] []) = ''implemented'' \<and>
   status (match_single_feature
             (new_Feature ''DB Infrastructure'' ''Core'' ''Connection pooling (r2d2)'')
             [] {} {} {} [(''bb-models'', ''rusqlite::Connection'')] []) = ''missing''"
proof -
  have n: "py_in ''connection pooling'' (py_lower ''Connection pooling (r2d2)'')"
    by (simp add: py_lower_def lower_char_def upper_letters_def lower_letters_def)
  have c: "category (new_Feature ''DB Infrastructure'' ''Core'' ''Connection pooling (r2d2)'')
           = ''DB Infrastructure''"
    and m: "name (new_Feature ''DB Infrastructure'' ''Core'' ''Connection pooling (r2d2)'')
           = ''Connection pooling (r2d2)''"
    by (simp_all add: new_Feature_def)
  from n m have n': "py_in ''connection pooling''
      (py_lower (name (new_Feature ''DB Infrastructure'' ''Core'' ''Connection pooling (r2d2)'')))"
    by simp
  show ?thesis
    using n pooling_either_token [OF c n', of "[]" "{}" "{}" "{}" "[(''bb-models'', ''r2d2::Pool::new'')]" "[]"]
      pooling_either_token [OF c n', of "[]" "{}" "{}" "{}" "[(''bb-models'', ''rusqlite::Connection'')]" "[]"]
    by (simp add: content_get_def)
qed



text \<open>
  Claim C6: for a settings entry the matcher derives a lower-case variant of the name,
  with a separator before each upper-case letter that follows a lower-case letter
  (\<open>snake_of\<close>, which is the derived form as the specification words it, and turns
  \<^verbatim>\<open>userName\<close> into \<^verbatim>\<open>user_name\<close>); the entry is implemented if and only if
  the derived form or the name itself occurs in the text of the configuration module, and
  is otherwise missing with the fixed note \<^verbatim>\<open>Not in TOML config yet\<close>.
\<close>

theorem setting_implemented_iff:
  assumes "category feat = ''Settings''"
  shows "snake_of (name feat) = derived_variant (name feat) \<and>
         snake_of ''userName'' = ''user_name'' \<and>
         match_single_feature feat crates all_functions all_structs all_enums all_content joined_content
         = (if py_in (snake_of (name feat)) (content_get all_content ''bb-core'')
               \<or> py_in (name feat) (content_get all_content ''bb-core'')
            then feat\<lparr>status := ''implemented'', rust_file := ''bb-core/src/config.rs''\<rparr>
            else feat\<lparr>status := ''missing'', notes := ''Not in TOML config yet''\<rparr>)"
proof -
  have "snake_of (name feat) = derived_variant (name feat)"
    by (simp add: snake_of_def derived_variant_def camel_sub_zip)
  moreover have "snake_of ''userName'' = ''user_name''"
    by (simp add: snake_of_def py_lower_def lower_char_def is_lower_def is_upper_def
        upper_letters_def lower_letters_def)
  ultimately show ?thesis
    using assms
    by (simp add: match_single_feature_def match_setting_def Let_def implemented_in_def)
qed

theorem setting_implemented_iff_witness:
  "status (match_single_feature (new_Feature ''Settings'' ''Display'' ''userName'')
             [] {} {} {} [(''bb-core'', ''pub user_name: String'')] []) = ''implemented'' \<and>
   status (match_single_feature (new_Feature ''Settings'' ''Display'' ''userName'')
             [] {} {} {} [(''bb-core'', ''pub theme: String'')] []) = ''missing'' \<and>
   notes (match_single_feature (new_Feature ''Settings'' ''Display'' ''userName'')
             [] {} {} {} [(''bb-core'', ''pub theme: String'')] []) = ''Not in TOML config yet''"
proof -
  let ?f = "new_Feature ''Settings'' ''Display'' ''userName''"
  have c: "category ?f = ''Settings''" and n: "name ?f = ''userName''"
    by (simp_all add: new_Feature_def)
  note t = setting_implemented_iff [OF c, THEN conjunct2]
  show ?thesis
    using t [of "[]" "{}" "{}" "{}" "[(''bb-core'', ''pub user_name: String'')]" "[]"]
      t [of "[]" "{}" "{}" "{}" "[(''bb-core'', ''pub theme: String'')]" "[]"]
    by (simp add: n content_get_def)
qed

text \<open>
  Claim C8: a data-model entry \<^verbatim>\<open>Type.member\<close> (the catalog gives it the
  subcategory \<^verbatim>\<open>Type\<close>, which is where the matcher reads the type from) whose type is
  among the declared types or occurs in the text of the model module, and whose member
  does not occur in that text, becomes stubbed, with a note that names the member.
\<close>

theorem db_model_missing_member_is_stubbed:
  assumes "category feat = ''DB Models''"
    and "subcategory feat = t"
    and "name feat = t @ ''.'' @ m"
    and "CHR ''.'' \<notin> set t"
    and "t \<in> all_structs \<or> py_in t (content_get all_content ''bb-models'')"
    and "\<not> py_in m (content_get all_content ''bb-models'')"
  shows "status (match_single_feature feat crates all_functions all_structs all_enums all_content
                   joined_content) = ''stubbed'' \<and>
         notes (match_single_feature feat crates all_functions all_structs all_enums all_content
                   joined_content) = ''Struct exists but '' @ m @ '' not found'' \<and>
         py_in m (notes (match_single_feature feat crates all_functions all_structs all_enums
                   all_content joined_content))"
proof -
  from after_dot_member [OF assms(4), of m] assms(3) have a: "after_dot (name feat) = m"
    by simp
  have "py_in m (''Struct exists but '' @ m @ '' not found'')"
    by (rule py_in_middle)
  with assms a show ?thesis
    by (auto simp: match_single_feature_def match_db_model_def Let_def)
qed

theorem db_model_missing_member_is_stubbed_witness:
  "py_in ''Chat'' ''pub struct Chat { id: i64 }'' \<and> \<not> py_in ''guid'' ''pub struct Chat { id: i64 }'' \<and>
   status (match_single_feature (new_Feature ''DB Models'' ''Chat'' ''Chat.guid'')
             [] {} {} {} [(''bb-models'', ''pub struct Chat { id: i64 }'')] []) = ''stubbed'' \<and>
   notes (match_single_feature (new_Feature ''DB Models'' ''Chat'' ''Chat.guid'')
             [] {} {} {} [(''bb-models'', ''pub struct Chat { id: i64 }'')] [])
     = ''Struct exists but guid not found''"
proof -
  let ?f = "new_Feature ''DB Models'' ''Chat'' ''Chat.guid''"
  let ?c = "[(''bb-models'', ''pub struct Chat { id: i64 }'')]"
  have h: "category ?f = ''DB Models''" "subcategory ?f = ''Chat''" "name ?f = ''Chat'' @ ''.'' @ ''guid''"
    "CHR ''.'' \<notin> set ''Chat''"
    "''Chat'' \<in> {} \<or> py_in ''Chat'' (content_get ?c ''bb-models'')"
    "\<not> py_in ''guid'' (content_get ?c ''bb-models'')"
    by (simp_all add: new_Feature_def content_get_def)
  show ?thesis
    using db_model_missing_member_is_stubbed [OF h, of "[]" "{}" "{}" "[]"] h(5,6)
    by (simp add: content_get_def)
qed


text \<open>
  Claim C2, as stated: after matching, the evidence fields (location, symbol, note) are
  set only on implemented or stubbed entries, and a missing entry has an empty location
  and an empty symbol in every category. Two catalog entries matched against empty
  inputs end as missing, one with a location (the infrastructure matcher assigns it
  whatever the outcome of its check), the other with a note.
\<close>

theorem missing_entry_with_evidence_counterexample:
  "status (match_single_feature (new_Feature ''DB Infrastructure'' ''Core'' ''WAL mode'')
             [] {} {} {} [] []) = ''missing'' \<and>
   rust_file (match_single_feature (new_Feature ''DB Infrastructure'' ''Core'' ''WAL mode'')
             [] {} {} {} [] []) = ''bb-models/src/db.rs'' \<and>
   status (match_single_feature (new_Feature ''Settings'' ''Display'' ''userName'')
             [] {} {} {} [] []) = ''missing'' \<and>
   notes (match_single_feature (new_Feature ''Settings'' ''Display'' ''userName'')
             [] {} {} {} [] []) = ''Not in TOML config yet''"
  by (simp add: match_single_feature_def new_Feature_def match_db_infra_def match_setting_def
      content_get_def db_infra_checks_def snake_of_def py_lower_def lower_char_def
      is_lower_def is_upper_def upper_letters_def lower_letters_def)

text \<open>
  Claim C2, amended: after matching, an entry whose final status is missing has an empty
  evidence symbol, and an empty evidence location in every category other than
  \<^verbatim>\<open>DB Infrastructure\<close>. The note is left out: the event, service, settings and UI
  branches set it on missing entries.
\<close>

theorem missing_entry_has_no_evidence:
  assumes "status (match_single_feature (new_Feature c s n) crates all_functions all_structs
                     all_enums all_content joined_content) = ''missing''"
  shows "rust_symbol (match_single_feature (new_Feature c s n) crates all_functions all_structs
                     all_enums all_content joined_content) = [] \<and>
         (c \<noteq> ''DB Infrastructure'' \<longrightarrow>
          rust_file (match_single_feature (new_Feature c s n) crates all_functions all_structs
                     all_enums all_content joined_content) = [])"
proof -
  let ?f = "new_Feature c s n"
  let ?r = "match_single_feature ?f crates all_functions all_structs all_enums all_content
              joined_content"
  have f: "rust_file ?f = []" "rust_symbol ?f = []" "category ?f = c"
    by (simp_all add: new_Feature_def)
  from assms have m: "status ?r \<noteq> ''implemented''"
    by simp
  show ?thesis
  proof (cases "c = ''DB Infrastructure''")
    case True
    with f match_single_feature_symbol_on_infra [of ?f] show ?thesis
      by simp
  next
    case False
    with f have "evidence_kept ?f ?r"
      by (simp add: match_single_feature_evidence_kept)
    with m f False show ?thesis
      by (simp add: evidence_kept_def)
  qed
qed

theorem missing_entry_has_no_evidence_witness:
  "status (match_single_feature (new_Feature ''Core Infrastructure'' ''Core'' ''ServerConfig'')
             [] {} {} {} [(''bb-core'', ''pub struct AppConfig'')] []) = ''missing'' \<and>
   rust_symbol (match_single_feature (new_Feature ''Core Infrastructure'' ''Core'' ''ServerConfig'')
             [] {} {} {} [(''bb-core'', ''pub struct AppConfig'')] []) = [] \<and>
   rust_file (match_single_feature (new_Feature ''Core Infrastructure'' ''Core'' ''ServerConfig'')
             [] {} {} {} [(''bb-core'', ''pub struct AppConfig'')] []) = []"
proof -
  have m: "status (match_single_feature (new_Feature ''Core Infrastructure'' ''Core'' ''ServerConfig'')
             [] {} {} {} [(''bb-core'', ''pub struct AppConfig'')] []) = ''missing''"
    by (simp add: match_single_feature_def new_Feature_def match_core_def keyword_map_def
        content_get_def)
  from m missing_entry_has_no_evidence [OF m] show ?thesis
    by simp
qed

text \<open>
  Claim C3: whatever the module records, the module texts and the symbol index, a catalog
  entry ends as stubbed only if its category is \<^verbatim>\<open>DB Models\<close>, \<^verbatim>\<open>Services\<close>
  or \<^verbatim>\<open>CLI Commands\<close>; an entry of any other category never does.
\<close>

theorem stubbed_only_after_two_stage_check:
  assumes "status (match_single_feature (new_Feature c s n) crates all_functions all_structs
                     all_enums all_content joined_content) = ''stubbed''"
  shows "c = ''DB Models'' \<or> c = ''Services'' \<or> c = ''CLI Commands''"
proof (rule ccontr)
  let ?f = "new_Feature c s n"
  assume "\<not> ?thesis"
  moreover have "category ?f = c" and f: "status ?f = ''missing''"
    by (simp_all add: new_Feature_def)
  ultimately have "never_stubs ?f (match_single_feature ?f crates all_functions all_structs
                     all_enums all_content joined_content)"
    by (simp add: match_single_feature_never_stubs)
  with assms f show False
    by (simp add: never_stubs_def)
qed

theorem stubbed_only_after_two_stage_check_witness:
  "status (match_single_feature (new_Feature ''CLI Commands'' ''chats'' ''bb chats list'')
             [] {} {} {} [(''bb-cli'', ''mod chats;'')] []) = ''stubbed'' \<and>
   (''CLI Commands'' = ''DB Models'' \<or> ''CLI Commands'' = ''Services''
      \<or> ''CLI Commands'' = ''CLI Commands'')"
proof -
  have m: "status (match_single_feature (new_Feature ''CLI Commands'' ''chats'' ''bb chats list'')
             [] {} {} {} [(''bb-cli'', ''mod chats;'')] []) = ''stubbed''"
    by (simp add: match_single_feature_def new_Feature_def match_cli_command_def content_get_def
        py_capitalize_def py_title_def upper_char_def lower_char_def is_lower_def is_upper_def
        upper_letters_def lower_letters_def)
  from m stubbed_only_after_two_stage_check [OF m] show ?thesis
    by simp
qed

text \<open>
  Claim C4: scanning the same files in any other order of traversal gives, for every
  crate name, a record in both scans or in neither, and the two records have the same
  line count, the same test count and, as sets, the same structs, enums, traits,
  functions and implementation blocks.
\<close>

theorem scan_order_independent:
  assumes "mset rs_files' = mset rs_files"
  shows "rel_option same_contents
           (map_of (scan_rust_source root_parts rs_files') n)
           (map_of (scan_rust_source root_parts rs_files) n)"
proof -
  let ?xs = "crate_files root_parts n rs_files'" and ?ys = "crate_files root_parts n rs_files"
  from assms have m: "mset ?xs = mset ?ys"
    by (simp add: crate_files_def)
  then have t: "mset (readable_texts ?xs) = mset (readable_texts ?ys)"
    by (rule mset_readable_texts)
  from m have e: "?xs = [] \<longleftrightarrow> ?ys = []"
    by (metis mset_zero_iff)
  from t have s: "set (readable_texts ?xs) = set (readable_texts ?ys)"
    by (rule mset_eq_setD)
  have "same_contents (foldl scan_file info ?xs) (foldl scan_file info ?ys)" for info
    unfolding same_contents_def scan_file_fold_fields
    by (simp add: sum_list_mset_cong [OF t] s)
  with e show ?thesis
    by (simp add: scan_rust_source_def map_of_scan_fold)
qed

theorem scan_order_independent_witness:
  "mset [\<lparr>rel_parts = [''bb-core'', ''src'', ''b.rs''], text_of = Some ''pub enum B {}''\<rparr>,
         \<lparr>rel_parts = [''bb-core'', ''src'', ''lib.rs''], text_of = Some ''pub struct A;''\<rparr>]
   = mset [\<lparr>rel_parts = [''bb-core'', ''src'', ''lib.rs''], text_of = Some ''pub struct A;''\<rparr>,
           \<lparr>rel_parts = [''bb-core'', ''src'', ''b.rs''], text_of = Some ''pub enum B {}''\<rparr>] \<and>
   rel_option same_contents
     (map_of (scan_rust_source [''proj'']
        [\<lparr>rel_parts = [''bb-core'', ''src'', ''b.rs''], text_of = Some ''pub enum B {}''\<rparr>,
         \<lparr>rel_parts = [''bb-core'', ''src'', ''lib.rs''], text_of = Some ''pub struct A;''\<rparr>])
        ''bb-core'')
     (map_of (scan_rust_source [''proj'']
        [\<lparr>rel_parts = [''bb-core'', ''src'', ''lib.rs''], text_of = Some ''pub struct A;''\<rparr>,
         \<lparr>rel_parts = [''bb-core'', ''src'', ''b.rs''], text_of = Some ''pub enum B {}''\<rparr>])
        ''bb-core'') \<and>
   map_of (scan_rust_source [''proj'']
      [\<lparr>rel_parts = [''bb-core'', ''src'', ''lib.rs''], text_of = Some ''pub struct A;''\<rparr>,
       \<lparr>rel_parts = [''bb-core'', ''src'', ''b.rs''], text_of = Some ''pub enum B {}''\<rparr>]) ''bb-core''
   = Some \<lparr>crate_name = ''bb-core'', files = [''bb-core/src/lib.rs'', ''bb-core/src/b.rs''],
       structs = [''A''], functions = [], enums = [''B''], traits = [], impls = [],
       test_count = 0, line_count = 2\<rparr>"
proof -
  let ?a = "\<lparr>rel_parts = [''bb-core'', ''src'', ''lib.rs''], text_of = Some ''pub struct A;''\<rparr>"
  let ?b = "\<lparr>rel_parts = [''bb-core'', ''src'', ''b.rs''], text_of = Some ''pub enum B {}''\<rparr>"
  have p: "mset [?b, ?a] = mset [?a, ?b]"
    by simp
  have v: "map_of (scan_rust_source [''proj''] [?a, ?b]) ''bb-core''
   = Some \<lparr>crate_name = ''bb-core'', files = [''bb-core/src/lib.rs'', ''bb-core/src/b.rs''],
       structs = [''A''], functions = [], enums = [''B''], traits = [], impls = [],
       test_count = 0, line_count = 2\<rparr>"
    by (simp add: scan_rust_source_def scan_step_def skipped_def crate_of_def scan_file_def
        extract_symbols_def new_CrateInfo_def Let_def re_test_def re_pub_kw_def re_pub_fn_def
        re_impl_def lit_def spaces1_def word1_def matched_def is_space_def is_word_def
        upper_letters_def lower_letters_def digits_def)
  from p v scan_order_independent [OF p, of "[''proj'']" "''bb-core''"] show ?thesis
    by (intro conjI)
qed

text \<open>
  Claim C5: matching is a function of its inputs that works entry by entry. The result
  for a list is the list of the results of its entries matched alone; the result at a
  position depends neither on the entries before it nor on those after it; and matching
  the matched entries again, against the same inputs, changes nothing (so an entry that
  the list held twice would end as it does when matched once).
\<close>

theorem matching_is_entrywise:
  "match_features read_text features crates
     = map (\<lambda>f. hd (match_features read_text [f] crates)) features \<and>
   match_features read_text (pre @ feat # post) crates ! length pre
     = hd (match_features read_text [feat] crates) \<and>
   match_features read_text (match_features read_text features crates) crates
     = match_features read_text features crates"
  by (simp add: match_features_def Let_def nth_append match_single_feature_idem)

theorem matching_is_entrywise_witness:
  "match_features (\<lambda>p. None)
      ([new_Feature ''UI Screens'' ''Tauri UI'' ''ThemePicker'']
       @ new_Feature ''Settings'' ''Display'' ''userName''
       # [new_Feature ''Settings'' ''Theme'' ''skin'']) []
     ! length [new_Feature ''UI Screens'' ''Tauri UI'' ''ThemePicker'']
   = hd (match_features (\<lambda>p. None) [new_Feature ''Settings'' ''Display'' ''userName''] [])"
  by (rule matching_is_entrywise [THEN conjunct2, THEN conjunct1])




text \<open>
  Claim C10: the record of a crate lists the path of every file of the crate that the walk
  yields, whether its read raised or not, while the line count, the test count and the
  symbol lists come from the texts that could be read only. So the length of the file
  list is the number of texts read plus the number of files whose read raised, and
  exceeds the former as soon as one read raises.
\<close>

theorem unreadable_file_is_listed_only:
  assumes "map_of (scan_rust_source root_parts rs_files) n = Some info"
  shows "files info = map (\<lambda>x. py_join ''/'' (rel_parts x)) (crate_files root_parts n rs_files) \<and>
         length (files info) =
           length (readable_texts (crate_files root_parts n rs_files))
           + length (filter (\<lambda>x. text_of x = None) (crate_files root_parts n rs_files)) \<and>
         line_count info =
           sum_list (map (\<lambda>c. int (length (filter (\<lambda>ch. ch = CHR 0x0A) c)) + 1)
                      (readable_texts (crate_files root_parts n rs_files))) \<and>
         test_count info =
           sum_list (map (\<lambda>c. int (length (finditer re_test c)))
                      (readable_texts (crate_files root_parts n rs_files))) \<and>
         structs info =
           concat (map (finditer (re_pub_kw ''struct''))
                     (readable_texts (crate_files root_parts n rs_files))) \<and>
         enums info =
           concat (map (finditer (re_pub_kw ''enum''))
                     (readable_texts (crate_files root_parts n rs_files))) \<and>
         traits info =
           concat (map (finditer (re_pub_kw ''trait''))
                     (readable_texts (crate_files root_parts n rs_files))) \<and>
         functions info =
           concat (map (finditer re_pub_fn) (readable_texts (crate_files root_parts n rs_files))) \<and>
         impls info =
           concat (map (finditer re_impl) (readable_texts (crate_files root_parts n rs_files)))"
proof -
  have len: "length xs = length (readable_texts xs) + length (filter (\<lambda>x. text_of x = None) xs)"
    for xs
    by (induction xs) (auto simp: readable_texts_def split: option.split)
  from assms have "info = foldl scan_file (new_CrateInfo n) (crate_files root_parts n rs_files)"
    by (simp add: scan_rust_source_def map_of_scan_fold split: if_splits)
  then show ?thesis
    using len [of "crate_files root_parts n rs_files"]
    by (simp add: scan_file_fold_fields new_CrateInfo_def)
qed

theorem unreadable_file_is_listed_only_witness:
  "map_of (scan_rust_source [''proj'']
      [\<lparr>rel_parts = [''bb-core'', ''src'', ''lib.rs''], text_of = Some ''pub struct A;''\<rparr>,
       \<lparr>rel_parts = [''bb-core'', ''src'', ''locked.rs''], text_of = None\<rparr>]) ''bb-core''
   = Some \<lparr>crate_name = ''bb-core'', files = [''bb-core/src/lib.rs'', ''bb-core/src/locked.rs''],
       structs = [''A''], functions = [], enums = [], traits = [], impls = [],
       test_count = 0, line_count = 1\<rparr> \<and>
   length (readable_texts (crate_files [''proj''] ''bb-core''
      [\<lparr>rel_parts = [''bb-core'', ''src'', ''lib.rs''], text_of = Some ''pub struct A;''\<rparr>,
       \<lparr>rel_parts = [''bb-core'', ''src'', ''locked.rs''], text_of = None\<rparr>])) = 1"
proof -
  let ?a = "\<lparr>rel_parts = [''bb-core'', ''src'', ''lib.rs''], text_of = Some ''pub struct A;''\<rparr>"
  let ?u = "\<lparr>rel_parts = [''bb-core'', ''src'', ''locked.rs''], text_of = None\<rparr>"
  let ?i = "\<lparr>crate_name = ''bb-core'', files = [''bb-core/src/lib.rs'', ''bb-core/src/locked.rs''],
       structs = [''A''], functions = [], enums = [], traits = [], impls = [],
       test_count = 0, line_count = 1\<rparr>"
  have v: "map_of (scan_rust_source [''proj''] [?a, ?u]) ''bb-core'' = Some ?i"
    by (simp add: scan_rust_source_def scan_step_def skipped_def crate_of_def scan_file_def
        extract_symbols_def new_CrateInfo_def Let_def re_test_def re_pub_kw_def re_pub_fn_def
        re_impl_def lit_def spaces1_def word1_def matched_def is_space_def is_word_def
        upper_letters_def lower_letters_def digits_def)
  from unreadable_file_is_listed_only [OF v]
  have "length (files ?i)
        = length (readable_texts (crate_files [''proj''] ''bb-core'' [?a, ?u]))
          + length (filter (\<lambda>x. text_of x = None) (crate_files [''proj''] ''bb-core'' [?a, ?u]))"
    by (elim conjE)
  then have "length (readable_texts (crate_files [''proj''] ''bb-core'' [?a, ?u])) = 1"
    by (simp add: crate_files_def skipped_def crate_of_def)
  with v show ?thesis
    by (intro conjI)
qed

end
